theory Spec2Isabelle
  imports Complex_Main
begin

section \<open>The JavaScript values and operators the two price feeds rely on\<close>

text \<open>
  The feeds are TypeScript classes (\<^verbatim>\<open>TwelveDataApiPriceFeed.ts\<close>,
  \<^verbatim>\<open>StatisticsNetherlandsPriceFeed.ts\<close>). Their behaviour depends on a few
  operators of the language: truthiness of a sample's \<^verbatim>\<open>date\<close>, the comparison
  \<^verbatim>\<open>time < date\<close>, \<^verbatim>\<open>Number(string)\<close>, \<^verbatim>\<open>substring\<close>, \<^verbatim>\<open>slice\<close>
  and \<^verbatim>\<open>trim\<close>. They are modelled here after ECMAScript, with two simplifications
  that are stated once: strings are lists of 8-bit characters, and a finite number is an
  exact rational (no rounding to binary64). Query times, timestamps, prices (BN) and
  the clock are integers.
\<close>

datatype jsnumber = NotANumber | Finite rat | PosInfinity | NegInfinity

text \<open>What a sample's \<^verbatim>\<open>date\<close> field can hold: the declared type is \<^verbatim>\<open>number\<close>
  (an integer timestamp, or NaN), the TwelveData feed stores the response's string.\<close>

datatype jsvalue = NaN | Num int | Str string

text \<open>\<^verbatim>\<open>lastUpdateTime: number | null\<close>; \<^verbatim>\<open>getHistoricalPrice\<close> compares it
  with \<^verbatim>\<open>undefined\<close>, so that value is part of the type.\<close>

datatype update_time = Undefined | Null | Seconds int

definition isDigit :: "char \<Rightarrow> bool" where
  "isDigit c = (48 \<le> (of_char c :: nat) \<and> (of_char c :: nat) \<le> 57)"

definition digitsValue :: "string \<Rightarrow> nat" where
  "digitsValue s = foldl (\<lambda>acc c. 10 * acc + ((of_char c :: nat) - 48)) 0 s"

definition isDigits :: "string \<Rightarrow> bool" where
  "isDigits s = (s \<noteq> [] \<and> list_all isDigit s)"

text \<open>StrWhiteSpaceChar (WhiteSpace and LineTerminator) among the 8-bit characters:
  TAB, LF, VT, FF, CR, SP, NBSP.\<close>

definition isWhiteSpace :: "char \<Rightarrow> bool" where
  "isWhiteSpace c = ((of_char c :: nat) \<in> {9, 10, 11, 12, 13, 32, 160})"

text \<open>\<^verbatim>\<open>String.prototype.trim\<close>.\<close>

definition trim :: "string \<Rightarrow> string" where
  "trim s = rev (dropWhile isWhiteSpace (rev (dropWhile isWhiteSpace s)))"

text \<open>\<^verbatim>\<open>s.substring(0, n)\<close> and \<^verbatim>\<open>s.slice(a, b)\<close> for \<open>0 \<le> a \<le> b\<close>: both clamp
  to the length of the string.\<close>

definition substring0 :: "string \<Rightarrow> nat \<Rightarrow> string" where
  "substring0 s n = take n s"

definition slice :: "string \<Rightarrow> nat \<Rightarrow> nat \<Rightarrow> string" where
  "slice s a b = take (b - a) (drop a s)"

subsection \<open>\<^verbatim>\<open>Number(string)\<close>: StringToNumber\<close>

definition pow10 :: "int \<Rightarrow> rat" where
  "pow10 e = (if 0 \<le> e then 10 ^ nat e else 1 / 10 ^ nat (- e))"

text \<open>ExponentPart, where the empty string stands for no exponent: \<^verbatim>\<open>e\<close> or
  \<^verbatim>\<open>E\<close>, an optional sign, at least one digit.\<close>

definition exponentPart :: "string \<Rightarrow> int option" where
  "exponentPart s =
     (case s of
        [] \<Rightarrow> Some 0
      | c # r \<Rightarrow>
          if c = CHR ''e'' \<or> c = CHR ''E'' then
            (case r of
               [] \<Rightarrow> None
             | sg # ds \<Rightarrow>
                 if sg = CHR ''+'' then (if isDigits ds then Some (int (digitsValue ds)) else None)
                 else if sg = CHR ''-'' then (if isDigits ds then Some (- int (digitsValue ds)) else None)
                 else if isDigits r then Some (int (digitsValue r)) else None)
          else None)"

text \<open>StrUnsignedDecimalLiteral: \<^verbatim>\<open>Infinity\<close>, or digits with an optional fraction
  and exponent, with a digit before or after the point.\<close>

definition strUnsignedDecimalLiteral :: "string \<Rightarrow> jsnumber" where
  "strUnsignedDecimalLiteral s =
     (if s = ''Infinity'' then PosInfinity
      else
        let ip = takeWhile isDigit s;
            r1 = dropWhile isDigit s;
            fp = (case r1 of [] \<Rightarrow> [] | c # t \<Rightarrow> if c = CHR ''.'' then takeWhile isDigit t else []);
            r2 = (case r1 of [] \<Rightarrow> [] | c # t \<Rightarrow> if c = CHR ''.'' then dropWhile isDigit t else r1)
        in if ip = [] \<and> fp = [] then NotANumber
           else (case exponentPart r2 of
                   None \<Rightarrow> NotANumber
                 | Some e \<Rightarrow>
                     Finite ((of_nat (digitsValue ip) + of_nat (digitsValue fp) / 10 ^ length fp)
                             * pow10 e)))"

definition negate :: "jsnumber \<Rightarrow> jsnumber" where
  "negate x =
     (case x of
        NotANumber \<Rightarrow> NotANumber
      | Finite q \<Rightarrow> Finite (- q)
      | PosInfinity \<Rightarrow> NegInfinity
      | NegInfinity \<Rightarrow> PosInfinity)"

definition radixDigit :: "char \<Rightarrow> nat" where
  "radixDigit c =
     (let n = (of_char c :: nat) in
      if 48 \<le> n \<and> n \<le> 57 then n - 48
      else if 97 \<le> n \<and> n \<le> 102 then n - 87
      else if 65 \<le> n \<and> n \<le> 70 then n - 55
      else 99)"

definition radixValue :: "nat \<Rightarrow> string \<Rightarrow> jsnumber option" where
  "radixValue b ds =
     (if ds \<noteq> [] \<and> list_all (\<lambda>c. radixDigit c < b) ds
      then Some (Finite (of_nat (foldl (\<lambda>acc c. b * acc + radixDigit c) 0 ds)))
      else None)"

text \<open>NonDecimalIntegerLiteral (\<^verbatim>\<open>0x\<close>, \<^verbatim>\<open>0o\<close>, \<^verbatim>\<open>0b\<close>, unsigned); \<open>None\<close>
  when the string is not one.\<close>

definition nonDecimalIntegerLiteral :: "string \<Rightarrow> jsnumber option" where
  "nonDecimalIntegerLiteral s =
     (case s of
        z # p # ds \<Rightarrow>
          if z \<noteq> CHR ''0'' then None
          else if p = CHR ''x'' \<or> p = CHR ''X'' then radixValue 16 ds
          else if p = CHR ''o'' \<or> p = CHR ''O'' then radixValue 8 ds
          else if p = CHR ''b'' \<or> p = CHR ''B'' then radixValue 2 ds
          else None
      | _ \<Rightarrow> None)"

definition StringToNumber :: "string \<Rightarrow> jsnumber" where
  "StringToNumber s =
     (let t = trim s in
      if t = [] then Finite 0
      else (case nonDecimalIntegerLiteral t of
              Some v \<Rightarrow> v
            | None \<Rightarrow>
                (case t of
                   [] \<Rightarrow> Finite 0
                 | c # r \<Rightarrow>
                     if c = CHR ''+'' then strUnsignedDecimalLiteral r
                     else if c = CHR ''-'' then negate (strUnsignedDecimalLiteral r)
                     else strUnsignedDecimalLiteral t)))"

subsection \<open>Truthiness and \<^verbatim>\<open><\<close>\<close>

fun ToBoolean :: "jsvalue \<Rightarrow> bool" where
  "ToBoolean NaN = False"
| "ToBoolean (Num n) = (n \<noteq> 0)"
| "ToBoolean (Str s) = (s \<noteq> [])"

fun ToNumber :: "jsvalue \<Rightarrow> jsnumber" where
  "ToNumber NaN = NotANumber"
| "ToNumber (Num n) = Finite (of_int n)"
| "ToNumber (Str s) = StringToNumber s"

text \<open>\<^verbatim>\<open>Number::lessThan\<close>; its \<^verbatim>\<open>undefined\<close> result (a NaN operand) makes
  \<^verbatim>\<open><\<close> false.\<close>

fun numberLessThan :: "jsnumber \<Rightarrow> jsnumber \<Rightarrow> bool" where
  "numberLessThan NotANumber y = False"
| "numberLessThan x NotANumber = False"
| "numberLessThan (Finite a) (Finite b) = (a < b)"
| "numberLessThan (Finite a) PosInfinity = True"
| "numberLessThan (Finite a) NegInfinity = False"
| "numberLessThan PosInfinity y = False"
| "numberLessThan NegInfinity (Finite b) = True"
| "numberLessThan NegInfinity PosInfinity = True"
| "numberLessThan NegInfinity NegInfinity = False"

text \<open>Two strings compare by code units.\<close>

fun stringLessThan :: "string \<Rightarrow> string \<Rightarrow> bool" where
  "stringLessThan [] [] = False"
| "stringLessThan [] (y # ys) = True"
| "stringLessThan (x # xs) [] = False"
| "stringLessThan (x # xs) (y # ys) =
     ((of_char x :: nat) < of_char y \<or> (x = y \<and> stringLessThan xs ys))"

text \<open>The operator \<^verbatim>\<open>x < y\<close> (IsLessThan): two strings compare as strings, anything
  else after conversion to numbers.\<close>

fun IsLessThan :: "jsvalue \<Rightarrow> jsvalue \<Rightarrow> bool" where
  "IsLessThan (Str a) (Str b) = stringLessThan a b"
| "IsLessThan x y = numberLessThan (ToNumber x) (ToNumber y)"

section \<open>Fixed-decimal conversion\<close>

datatype fixed_error =
    InvalidDecimalSize
  | InvalidDecimalValue
  | MissingValue
  | TooManyDecimalPoints
  | FractionalComponentExceedsDecimals

definition stripTrailingZeros :: "string \<Rightarrow> string" where
  "stripTrailingZeros s = rev (dropWhile (\<lambda>c. c = CHR ''0'') (rev s))"

text \<open>
  Modelled from the spec: \<^verbatim>\<open>parseFixed\<close> of \<^verbatim>\<open>@uma/common\<close>, which is not among the
  source files. The spec has it convert a raw decimal string to the integer scaled by
  \<open>10 ^ priceFeedDecimals\<close>, where the string must not carry more fractional digits than
  \<open>priceFeedDecimals\<close>. The failures of the library function behind it (a string that is
  not an optionally signed run of digits and points, a lone point, two points, too many
  fractional digits, more than 256 decimals) are results \<open>Inl\<close>.
\<close>

definition parseFixed :: "string \<Rightarrow> nat \<Rightarrow> fixed_error + int" where
  "parseFixed v decimals =
     (let negative = (take 1 v = ''-'');
          body = (if negative then drop 1 v else v);
          whole = takeWhile (\<lambda>c. c \<noteq> CHR ''.'') body;
          fraction = stripTrailingZeros (drop 1 (dropWhile (\<lambda>c. c \<noteq> CHR ''.'') body));
          wei = int (digitsValue whole) * 10 ^ decimals
                + int (digitsValue fraction) * 10 ^ (decimals - length fraction)
      in if 256 < decimals then Inl InvalidDecimalSize
         else if body = [] \<or> \<not> list_all (\<lambda>c. isDigit c \<or> c = CHR ''.'') body
           then Inl InvalidDecimalValue
         else if body = ''.'' then Inl MissingValue
         else if 1 < length (filter (\<lambda>c. c = CHR ''.'') body) then Inl TooManyDecimalPoints
         else if decimals < length fraction then Inl FractionalComponentExceedsDecimals
         else Inr (if negative then - wei else wei))"

text \<open>
  \<^verbatim>\<open>convertPriceFeedDecimals\<close> of both feeds:
  \<^verbatim>\<open>Web3.utils.toBN(parseFixed(number.toString().substring(0, priceFeedDecimals),
  priceFeedDecimals).toString())\<close>. Both callers pass a string, on which
  \<^verbatim>\<open>toString\<close> is the identity; \<^verbatim>\<open>toBN\<close> of the decimal text of an integer is
  that integer.
\<close>

definition convertPriceFeedDecimals :: "nat \<Rightarrow> string \<Rightarrow> fixed_error + int" where
  "convertPriceFeedDecimals priceFeedDecimals number =
     parseFixed (substring0 number priceFeedDecimals) priceFeedDecimals"

section \<open>State, configuration and errors shared by the two feeds\<close>

text \<open>The constructor parameters the modelled methods read. The symbol and the API key
  only reach the log and the error messages.\<close>

record config =
  lookback :: int
  priceFeedDecimals :: nat
  minTimeBetweenUpdates :: int

text \<open>The private fields: \<^verbatim>\<open>priceHistory\<close>, \<^verbatim>\<open>currentPrice: BN | null\<close>,
  \<^verbatim>\<open>lastUpdateTime: number | null\<close>.\<close>

record 'p feed_state =
  priceHistory :: "'p list"
  currentPrice :: "int option"
  lastUpdateTime :: update_time

text \<open>The fields as the constructor leaves them.\<close>

definition initial :: "'p feed_state" where
  "initial = \<lparr>priceHistory = [], currentPrice = None, lastUpdateTime = Null\<rparr>"

text \<open>
  The errors \<^verbatim>\<open>getHistoricalPrice\<close> throws, under the names the specification gives
  them: \<^verbatim>\<open>undefined lastUpdateTime\<close>, \<^verbatim>\<open>no valid price periods\<close>,
  \<^verbatim>\<open>time ... is before firstPricePeriod\<close>, \<^verbatim>\<open>currentPrice is null\<close>.
\<close>

datatype query_error =
    UninitializedFeedError
  | EmptySeriesError
  | BeforeLookbackWindowError
  | MissingCurrentPriceError

text \<open>
  What \<^verbatim>\<open>networker.getJson\<close> resolves to, as far as \<^verbatim>\<open>update\<close> looks at it: no
  response (null or undefined), an object whose sample member (\<^verbatim>\<open>values\<close>, resp.
  \<^verbatim>\<open>value\<close>) is missing or falsy, or an object with an array of samples.
\<close>

datatype 'r response = Absent | NoSamples | Samples "'r list"

text \<open>The errors \<^verbatim>\<open>update\<close> ends with: the rejected request, the
  \<^verbatim>\<open>Could not parse price result from url ...\<close> error with the URL and the response,
  and a failure of the decimal conversion of a sample.\<close>

datatype 'r update_error =
    NetworkError
  | DataSourceError string "'r response"
  | ConversionError fixed_error

text \<open>One call of \<^verbatim>\<open>update\<close>: the fields afterwards, the URLs passed to
  \<^verbatim>\<open>networker.getJson\<close>, and the error thrown, if any.\<close>

record ('p, 'r) outcome =
  feed :: "'p feed_state"
  requests :: "string list"
  thrown :: "'r update_error option"

text \<open>\<^verbatim>\<open>this.lastUpdateTime !== null && this.lastUpdateTime + this.minTimeBetweenUpdates
  > currentTime\<close>; \<^verbatim>\<open>undefined + n\<close> is NaN, which is greater than nothing.\<close>

fun tooRecent :: "update_time \<Rightarrow> int \<Rightarrow> int \<Rightarrow> bool" where
  "tooRecent Null minTime currentTime = False"
| "tooRecent Undefined minTime currentTime = False"
| "tooRecent (Seconds t) minTime currentTime = (t + minTime > currentTime)"

text \<open>\<^verbatim>\<open>Array.prototype.map\<close> with a callback that can throw: the first error ends it.\<close>

fun mapResult :: "('a \<Rightarrow> 'e + 'b) \<Rightarrow> 'a list \<Rightarrow> 'e + 'b list" where
  "mapResult f [] = Inr []"
| "mapResult f (x # xs) =
     (case f x of
        Inl e \<Rightarrow> Inl e
      | Inr y \<Rightarrow> (case mapResult f xs of Inl e \<Rightarrow> Inl e | Inr ys \<Rightarrow> Inr (y # ys)))"

text \<open>\<^verbatim>\<open>Array.prototype.findIndex\<close>: \<open>-1\<close> when no element satisfies the predicate.\<close>

fun findIndex :: "('a \<Rightarrow> bool) \<Rightarrow> 'a list \<Rightarrow> int" where
  "findIndex P [] = - 1"
| "findIndex P (x # xs) =
     (if P x then 0 else (let i = findIndex P xs in if i < 0 then - 1 else i + 1))"

section \<open>TweleveDataApiPriceFeed\<close>

text \<open>A sample of the response (\<^verbatim>\<open>dailyData\<close>): the members \<^verbatim>\<open>update\<close> reads. The
  documented response has strings in both.\<close>

record td_value =
  datetime :: jsvalue
  close :: string

text \<open>\<^verbatim>\<open>priceHistory: { date: number; closePrice: BN }[]\<close>.\<close>

record td_sample =
  date :: jsvalue
  closePrice :: int

type_synonym td_state = "td_sample feed_state"

text \<open>The URL is a constant of the source.\<close>

definition TD_url :: string where
  "TD_url = ''https://api.twelvedata.com/time_series?apikey=8c28e2ab6088439e92a60426194469af&interval=1h&symbol=URTH&start_date=2023-02-10 09:30:00&end_date=2023-02-13 20:00:00''"

definition TD_parse :: "config \<Rightarrow> td_value \<Rightarrow> fixed_error + td_sample" where
  "TD_parse cfg dailyData =
     (case convertPriceFeedDecimals (priceFeedDecimals cfg) (close dailyData) of
        Inl e \<Rightarrow> Inl e
      | Inr c \<Rightarrow> Inr \<lparr>td_sample.date = datetime dailyData, closePrice = c\<rparr>)"

definition TD_update ::
  "config \<Rightarrow> (string \<Rightarrow> td_value response option) \<Rightarrow> int \<Rightarrow> td_state
   \<Rightarrow> (td_sample, td_value) outcome" where
  "TD_update cfg networker currentTime this =
     (if tooRecent (lastUpdateTime this) (minTimeBetweenUpdates cfg) currentTime
      then \<lparr>feed = this, requests = [], thrown = None\<rparr>
      else
        (case networker TD_url of
           None \<Rightarrow> \<lparr>feed = this, requests = [TD_url], thrown = Some NetworkError\<rparr>
         | Some historyResponse \<Rightarrow>
             (case historyResponse of
                Samples (v # vs) \<Rightarrow>
                  (case mapResult (TD_parse cfg) (v # vs) of
                     Inl e \<Rightarrow>
                       \<lparr>feed = this, requests = [TD_url], thrown = Some (ConversionError e)\<rparr>
                   | Inr newHistoricalPricePeriods \<Rightarrow>
                       \<lparr>feed = this
                          \<lparr>currentPrice := Some (closePrice (last newHistoricalPricePeriods)),
                           priceHistory := newHistoricalPricePeriods,
                           lastUpdateTime := Seconds currentTime\<rparr>,
                        requests = [TD_url], thrown = None\<rparr>)
              | _ \<Rightarrow>
                  \<lparr>feed = this, requests = [TD_url],
                   thrown = Some (DataSourceError TD_url historyResponse)\<rparr>)))"

definition TD_getCurrentPrice :: "td_state \<Rightarrow> int option" where
  "TD_getCurrentPrice this = currentPrice this"

text \<open>The \<^verbatim>\<open>verbose\<close> branches only print; \<^verbatim>\<open>ancillaryData\<close> is not read.\<close>

definition TD_getHistoricalPrice :: "td_state \<Rightarrow> int \<Rightarrow> query_error + int" where
  "TD_getHistoricalPrice this time =
     (if lastUpdateTime this = Undefined then Inl UninitializedFeedError
      else
        (case find (\<lambda>p. ToBoolean (td_sample.date p)) (priceHistory this) of
           None \<Rightarrow> Inl EmptySeriesError
         | Some firstPrice \<Rightarrow>
             if IsLessThan (Num time) (td_sample.date firstPrice)
             then Inl BeforeLookbackWindowError
             else
               (case find (\<lambda>pricePeriod. IsLessThan (Num time) (td_sample.date pricePeriod))
                       (priceHistory this) of
                  None \<Rightarrow>
                    (case currentPrice this of
                       None \<Rightarrow> Inl MissingCurrentPriceError
                     | Some returnPrice \<Rightarrow> Inr returnPrice)
                | Some match \<Rightarrow> Inr (closePrice match))))"

section \<open>StatisticsNetherlandsPriceFeed\<close>

subsection \<open>\<^verbatim>\<open>Date.UTC\<close>\<close>

definition ToIntegerOrInfinity :: "rat \<Rightarrow> int" where
  "ToIntegerOrInfinity q = (if 0 \<le> q then \<lfloor>q\<rfloor> else - \<lfloor>- q\<rfloor>)"

definition DayFromYear :: "int \<Rightarrow> int" where
  "DayFromYear y =
     365 * (y - 1970) + (y - 1969) div 4 - (y - 1901) div 100 + (y - 1601) div 400"

definition InLeapYear :: "int \<Rightarrow> bool" where
  "InLeapYear y = (if y mod 4 = 0 then (if y mod 100 = 0 then y mod 400 = 0 else True) else False)"

text \<open>The day within the year on which month \<open>mn\<close> (0 to 11) starts.\<close>

definition monthStart :: "int \<Rightarrow> bool \<Rightarrow> int" where
  "monthStart mn leap =
     [0, 31, 59, 90, 120, 151, 181, 212, 243, 273, 304, 334] ! nat mn
     + (if leap \<and> 2 \<le> mn then 1 else 0)"

definition MakeDay :: "int \<Rightarrow> int \<Rightarrow> int \<Rightarrow> int" where
  "MakeDay year month dt =
     (let ym = year + month div 12;
          mn = month mod 12
      in DayFromYear ym + monthStart mn (InLeapYear ym) + dt - 1)"

definition MakeFullYear :: "int \<Rightarrow> int" where
  "MakeFullYear y = (if 0 \<le> y \<and> y \<le> 99 then 1900 + y else y)"

text \<open>\<^verbatim>\<open>Date.UTC(year, month, date, hours, minutes, seconds)\<close> in milliseconds, \<open>None\<close>
  for NaN: a year or month that is not finite, or a time beyond TimeClip's range.\<close>

definition Date_UTC ::
  "jsnumber \<Rightarrow> jsnumber \<Rightarrow> int \<Rightarrow> int \<Rightarrow> int \<Rightarrow> int \<Rightarrow> int option" where
  "Date_UTC year month dt hours minutes seconds =
     (case year of
        Finite y \<Rightarrow>
          (case month of
             Finite m \<Rightarrow>
               (let tv = MakeDay (MakeFullYear (ToIntegerOrInfinity y)) (ToIntegerOrInfinity m) dt
                           * 86400000
                         + (hours * 3600000 + minutes * 60000 + seconds * 1000)
                in if 8640000000000000 < \<bar>tv\<bar> then None else Some tv)
           | _ \<Rightarrow> None)
      | _ \<Rightarrow> None)"

subsection \<open>The feed\<close>

text \<open>A sample of the response: the members \<^verbatim>\<open>update\<close> reads, both strings.\<close>

record sn_value =
  Periods :: string
  PriceIndexOfExistingOwnHomes_1 :: string

text \<open>\<^verbatim>\<open>priceHistory: { date: number; price: BN }[]\<close>.\<close>

record sn_sample =
  date :: jsvalue
  price :: int

type_synonym sn_state = "sn_sample feed_state"

text \<open>
  \<^verbatim>\<open>convertFormattedDateToTimestamp\<close>: the 22nd, 02:00:00 UTC, of the month after the
  one the period names (\<^verbatim>\<open>Date.UTC\<close> counts months from 0), in seconds
  (\<^verbatim>\<open>moment(date).unix()\<close> is the floor of the milliseconds over 1000, NaN for an
  invalid date).
\<close>

definition convertFormattedDateToTimestamp :: "string \<Rightarrow> jsvalue" where
  "convertFormattedDateToTimestamp formattedDate =
     (let year = slice formattedDate 0 4;
          monthString = slice formattedDate 6 8
      in case Date_UTC (StringToNumber year) (StringToNumber monthString) 22 2 0 0 of
           None \<Rightarrow> NaN
         | Some ms \<Rightarrow> Num (ms div 1000))"

text \<open>
  The URL ends with \<^verbatim>\<open>formatDate(_secondToDate(currentTime - lookback))\<close>. Both
  functions read the host's time zone (through \<^verbatim>\<open>moment\<close> and the local getters of
  \<^verbatim>\<open>Date\<close>); their composition is the parameter \<open>formatStart\<close>.
\<close>

definition SN_url :: "string \<Rightarrow> string" where
  "SN_url formattedStartDateString =
     ''https://opendata.cbs.nl/ODataApi/odata/83906ENG/UntypedDataSet''
     @ ''?$filter=Periods ge '' @ [CHR 0x27] @ formattedStartDateString @ [CHR 0x27]"

definition SN_parse :: "config \<Rightarrow> sn_value \<Rightarrow> fixed_error + sn_sample" where
  "SN_parse cfg dailyData =
     (case convertPriceFeedDecimals (priceFeedDecimals cfg)
             (trim (PriceIndexOfExistingOwnHomes_1 dailyData)) of
        Inl e \<Rightarrow> Inl e
      | Inr c \<Rightarrow>
          Inr \<lparr>date = convertFormattedDateToTimestamp (Periods dailyData), price = c\<rparr>)"

definition SN_update ::
  "config \<Rightarrow> (int \<Rightarrow> string) \<Rightarrow> (string \<Rightarrow> sn_value response option) \<Rightarrow> int \<Rightarrow> sn_state
   \<Rightarrow> (sn_sample, sn_value) outcome" where
  "SN_update cfg formatStart networker currentTime this =
     (if tooRecent (lastUpdateTime this) (minTimeBetweenUpdates cfg) currentTime
      then \<lparr>feed = this, requests = [], thrown = None\<rparr>
      else
        (let startLookbackWindow = currentTime - lookback cfg;
             url = SN_url (formatStart startLookbackWindow)
         in case networker url of
              None \<Rightarrow> \<lparr>feed = this, requests = [url], thrown = Some NetworkError\<rparr>
            | Some historyResponse \<Rightarrow>
                (case historyResponse of
                   Samples (v # vs) \<Rightarrow>
                     (case mapResult (SN_parse cfg) (v # vs) of
                        Inl e \<Rightarrow>
                          \<lparr>feed = this, requests = [url], thrown = Some (ConversionError e)\<rparr>
                      | Inr newHistoricalPricePeriods \<Rightarrow>
                          \<lparr>feed = this
                             \<lparr>currentPrice := Some (price (last newHistoricalPricePeriods)),
                              priceHistory := newHistoricalPricePeriods,
                              lastUpdateTime := Seconds currentTime\<rparr>,
                           requests = [url], thrown = None\<rparr>)
                 | _ \<Rightarrow>
                     \<lparr>feed = this, requests = [url],
                      thrown = Some (DataSourceError url historyResponse)\<rparr>)))"

definition SN_getCurrentPrice :: "sn_state \<Rightarrow> int option" where
  "SN_getCurrentPrice this = currentPrice this"

definition SN_getHistoricalPrice :: "sn_state \<Rightarrow> int \<Rightarrow> query_error + int" where
  "SN_getHistoricalPrice this time =
     (if lastUpdateTime this = Undefined then Inl UninitializedFeedError
      else
        (case find (\<lambda>p. ToBoolean (date p)) (priceHistory this) of
           None \<Rightarrow> Inl EmptySeriesError
         | Some firstPrice \<Rightarrow>
             if IsLessThan (Num time) (date firstPrice)
             then Inl BeforeLookbackWindowError
             else
               (let matchedIndex =
                      findIndex (\<lambda>pricePeriod. IsLessThan (Num time) (date pricePeriod))
                        (priceHistory this);
                    match = (if 0 < matchedIndex
                             then Some (priceHistory this ! nat (matchedIndex - 1))
                             else None)
                in case match of
                     None \<Rightarrow>
                       (case currentPrice this of
                          None \<Rightarrow> Inl MissingCurrentPriceError
                        | Some returnPrice \<Rightarrow> Inr returnPrice)
                   | Some m \<Rightarrow> Inr (price m))))"

section \<open>Notions used to state the properties\<close>

text \<open>A networker that resolves every request to the response \<open>r\<close>.\<close>

definition respond :: "'r response \<Rightarrow> string \<Rightarrow> 'r response option" where
  "respond r url = Some r"

text \<open>The shape of the \<^verbatim>\<open>datetime\<close> strings of TwelveData
  (\<^verbatim>\<open>"2023-02-10 15:30:00"\<close> in the source's sample response): four digits and a
  hyphen, then the rest.\<close>

fun isDateString :: "string \<Rightarrow> bool" where
  "isDateString (a # b # c # d # e # r) =
     (isDigit a \<and> isDigit b \<and> isDigit c \<and> isDigit d \<and> e = CHR ''-'')"
| "isDateString s = False"

definition hasDateString :: "td_value \<Rightarrow> bool" where
  "hasDateString v = (case datetime v of Str d \<Rightarrow> isDateString d | _ \<Rightarrow> False)"

text \<open>The states a feed goes through: the constructor's, then any number of calls of
  \<^verbatim>\<open>update\<close>, whatever the clock and the network answer.\<close>

inductive TD_reachable :: "config \<Rightarrow> td_state \<Rightarrow> bool" for cfg :: config where
  TD_constructed: "TD_reachable cfg initial"
| TD_updated:
    "TD_reachable cfg this \<Longrightarrow> TD_reachable cfg (feed (TD_update cfg networker currentTime this))"

inductive SN_reachable :: "config \<Rightarrow> (int \<Rightarrow> string) \<Rightarrow> sn_state \<Rightarrow> bool"
  for cfg :: config and formatStart :: "int \<Rightarrow> string" where
  SN_constructed: "SN_reachable cfg formatStart initial"
| SN_updated:
    "SN_reachable cfg formatStart this
     \<Longrightarrow> SN_reachable cfg formatStart (feed (SN_update cfg formatStart networker currentTime this))"

text \<open>The scenario of the specification: the series \<open>(100, 10), (200, 20), (300, 30)\<close>
  with current price 30, last updated at 1000, in each feed; and a configuration.\<close>

definition TD_scenario :: td_state where
  "TD_scenario =
     \<lparr>priceHistory =
        [\<lparr>td_sample.date = Num 100, closePrice = 10\<rparr>,
         \<lparr>td_sample.date = Num 200, closePrice = 20\<rparr>,
         \<lparr>td_sample.date = Num 300, closePrice = 30\<rparr>],
      currentPrice = Some 30, lastUpdateTime = Seconds 1000\<rparr>"

definition SN_scenario :: sn_state where
  "SN_scenario =
     \<lparr>priceHistory =
        [\<lparr>date = Num 100, price = 10\<rparr>,
         \<lparr>date = Num 200, price = 20\<rparr>,
         \<lparr>date = Num 300, price = 30\<rparr>],
      currentPrice = Some 30, lastUpdateTime = Seconds 1000\<rparr>"

definition scenario_config :: config where
  "scenario_config = \<lparr>lookback = 345600, priceFeedDecimals = 18, minTimeBetweenUpdates = 900\<rparr>"

text \<open>A host on which the start of the lookback window always falls in January 2023.\<close>

definition formatStart_2023MM01 :: "int \<Rightarrow> string" where
  "formatStart_2023MM01 startLookbackWindow = ''2023MM01''"

text \<open>The sample responses in the comments of the two \<^verbatim>\<open>update\<close> methods, in the order
  given there.\<close>

definition TD_sample_response :: "td_value response" where
  "TD_sample_response =
     Samples
       [\<lparr>datetime = Str ''2023-02-10 15:30:00'', close = ''116.84000''\<rparr>,
        \<lparr>datetime = Str ''2023-02-10 14:30:00'', close = ''116.64000''\<rparr>]"

definition SN_sample_response :: "sn_value response" where
  "SN_sample_response =
     Samples
       [\<lparr>Periods = ''2023MM01'', PriceIndexOfExistingOwnHomes_1 = ''   183.3''\<rparr>,
        \<lparr>Periods = ''2023MM02'', PriceIndexOfExistingOwnHomes_1 = ''   180.6''\<rparr>]"

section \<open>Evaluating the sample responses\<close>

lemma TD_update_sample_response:
  "TD_update scenario_config (respond TD_sample_response) currentTime initial =
     \<lparr>feed =
        \<lparr>priceHistory =
           [\<lparr>td_sample.date = Str ''2023-02-10 15:30:00'', closePrice = 116840000000000000000\<rparr>,
            \<lparr>td_sample.date = Str ''2023-02-10 14:30:00'', closePrice = 116640000000000000000\<rparr>],
         currentPrice = Some 116640000000000000000,
         lastUpdateTime = Seconds currentTime\<rparr>,
      requests = [TD_url], thrown = None\<rparr>"
  by (simp add: TD_update_def respond_def initial_def TD_parse_def TD_sample_response_def
      scenario_config_def convertPriceFeedDecimals_def substring0_def parseFixed_def Let_def
      stripTrailingZeros_def isDigit_def digitsValue_def)

lemma convertFormattedDateToTimestamp_2023MM01:
  "convertFormattedDateToTimestamp ''2023MM01'' = Num 1677031200"
  by (simp add: convertFormattedDateToTimestamp_def slice_def StringToNumber_def trim_def
      isWhiteSpace_def nonDecimalIntegerLiteral_def strUnsignedDecimalLiteral_def isDigit_def
      exponentPart_def digitsValue_def pow10_def Date_UTC_def Let_def ToIntegerOrInfinity_def
      MakeFullYear_def MakeDay_def DayFromYear_def InLeapYear_def monthStart_def)

lemma convertFormattedDateToTimestamp_2023MM02:
  "convertFormattedDateToTimestamp ''2023MM02'' = Num 1679450400"
  by (simp add: convertFormattedDateToTimestamp_def slice_def StringToNumber_def trim_def
      isWhiteSpace_def nonDecimalIntegerLiteral_def strUnsignedDecimalLiteral_def isDigit_def
      exponentPart_def digitsValue_def pow10_def Date_UTC_def Let_def ToIntegerOrInfinity_def
      MakeFullYear_def MakeDay_def DayFromYear_def InLeapYear_def monthStart_def)

lemma SN_update_sample_response:
  "SN_update scenario_config formatStart (respond SN_sample_response) currentTime initial =
     \<lparr>feed =
        \<lparr>priceHistory =
           [\<lparr>date = Num 1677031200, price = 183300000000000000000\<rparr>,
            \<lparr>date = Num 1679450400, price = 180600000000000000000\<rparr>],
         currentPrice = Some 180600000000000000000,
         lastUpdateTime = Seconds currentTime\<rparr>,
      requests = [SN_url (formatStart (currentTime - 345600))], thrown = None\<rparr>"
  by (simp add: SN_update_def respond_def initial_def SN_parse_def SN_sample_response_def
      scenario_config_def convertPriceFeedDecimals_def substring0_def parseFixed_def Let_def
      stripTrailingZeros_def isDigit_def digitsValue_def trim_def isWhiteSpace_def
      convertFormattedDateToTimestamp_2023MM01 convertFormattedDateToTimestamp_2023MM02)

section \<open>What one call of \<^verbatim>\<open>update\<close> does\<close>

lemma TD_update_throttled:
  "lastUpdateTime this = Seconds t \<Longrightarrow> currentTime < t + minTimeBetweenUpdates cfg
   \<Longrightarrow> TD_update cfg networker currentTime this = \<lparr>feed = this, requests = [], thrown = None\<rparr>"
  by (simp add: TD_update_def)

lemma SN_update_throttled:
  "lastUpdateTime this = Seconds t \<Longrightarrow> currentTime < t + minTimeBetweenUpdates cfg
   \<Longrightarrow> SN_update cfg formatStart networker currentTime this
       = \<lparr>feed = this, requests = [], thrown = None\<rparr>"
  by (simp add: SN_update_def)

lemma TD_update_refreshed:
  assumes "\<not> tooRecent (lastUpdateTime this) (minTimeBetweenUpdates cfg) currentTime"
    and "thrown (TD_update cfg networker currentTime this) = None"
  obtains vs new where "networker TD_url = Some (Samples vs)" "vs \<noteq> []"
    "mapResult (TD_parse cfg) vs = Inr new"
    "TD_update cfg networker currentTime this
       = \<lparr>feed = this\<lparr>currentPrice := Some (closePrice (last new)), priceHistory := new,
                         lastUpdateTime := Seconds currentTime\<rparr>,
          requests = [TD_url], thrown = None\<rparr>"
  using assms
  by (auto simp: TD_update_def split: option.splits response.splits list.splits sum.splits)

lemma SN_update_refreshed:
  assumes "\<not> tooRecent (lastUpdateTime this) (minTimeBetweenUpdates cfg) currentTime"
    and "thrown (SN_update cfg formatStart networker currentTime this) = None"
  obtains vs new where
    "networker (SN_url (formatStart (currentTime - lookback cfg))) = Some (Samples vs)" "vs \<noteq> []"
    "mapResult (SN_parse cfg) vs = Inr new"
    "SN_update cfg formatStart networker currentTime this
       = \<lparr>feed = this\<lparr>currentPrice := Some (price (last new)), priceHistory := new,
                         lastUpdateTime := Seconds currentTime\<rparr>,
          requests = [SN_url (formatStart (currentTime - lookback cfg))], thrown = None\<rparr>"
  using assms
  by (auto simp: SN_update_def Let_def split: option.splits response.splits list.splits sum.splits)

lemma mapResult_Inr:
  "mapResult f xs = Inr ys \<Longrightarrow> list_all2 (\<lambda>x y. f x = Inr y) xs ys"
proof (induction xs arbitrary: ys)
  case Nil
  then show ?case by simp
next
  case (Cons x xs)
  then show ?case by (auto split: sum.splits)
qed

lemma mapResult_nonempty: "mapResult f xs = Inr ys \<Longrightarrow> xs \<noteq> [] \<Longrightarrow> ys \<noteq> []"
  by (cases xs) (auto split: sum.splits)

lemma TD_update_feed:
  "feed (TD_update cfg networker currentTime this) = this
   \<or> (\<exists>new. new \<noteq> []
        \<and> feed (TD_update cfg networker currentTime this)
           = this\<lparr>currentPrice := Some (closePrice (last new)), priceHistory := new,
                  lastUpdateTime := Seconds currentTime\<rparr>)"
proof (cases "tooRecent (lastUpdateTime this) (minTimeBetweenUpdates cfg) currentTime")
  case True
  then show ?thesis by (simp add: TD_update_def)
next
  case False
  show ?thesis
  proof (cases "thrown (TD_update cfg networker currentTime this)")
    case None
    from TD_update_refreshed[OF False None] obtain vs new where
      ne: "vs \<noteq> []" and m: "mapResult (TD_parse cfg) vs = Inr new" and
      u: "TD_update cfg networker currentTime this
       = \<lparr>feed = this\<lparr>currentPrice := Some (closePrice (last new)), priceHistory := new,
                         lastUpdateTime := Seconds currentTime\<rparr>,
          requests = [TD_url], thrown = None\<rparr>"
      by blast
    have "new \<noteq> []" using mapResult_nonempty[OF m ne] .
    then show ?thesis by (intro disjI2 exI[of _ new]) (simp add: u)
  next
    case (Some e)
    have "feed (TD_update cfg networker currentTime this) = this"
      using Some False
      by (simp add: TD_update_def
          split: option.splits response.splits list.splits sum.splits)
    then show ?thesis by (rule disjI1)
  qed
qed

lemma SN_update_feed:
  "feed (SN_update cfg formatStart networker currentTime this) = this
   \<or> (\<exists>new. new \<noteq> []
        \<and> feed (SN_update cfg formatStart networker currentTime this)
           = this\<lparr>currentPrice := Some (price (last new)), priceHistory := new,
                  lastUpdateTime := Seconds currentTime\<rparr>)"
proof (cases "tooRecent (lastUpdateTime this) (minTimeBetweenUpdates cfg) currentTime")
  case True
  then show ?thesis by (simp add: SN_update_def)
next
  case False
  show ?thesis
  proof (cases "thrown (SN_update cfg formatStart networker currentTime this)")
    case None
    from SN_update_refreshed[OF False None] obtain vs new where
      ne: "vs \<noteq> []" and m: "mapResult (SN_parse cfg) vs = Inr new" and
      u: "SN_update cfg formatStart networker currentTime this
       = \<lparr>feed = this\<lparr>currentPrice := Some (price (last new)), priceHistory := new,
                         lastUpdateTime := Seconds currentTime\<rparr>,
          requests = [SN_url (formatStart (currentTime - lookback cfg))], thrown = None\<rparr>"
      by blast
    have "new \<noteq> []" using mapResult_nonempty[OF m ne] .
    then show ?thesis by (intro disjI2 exI[of _ new]) (simp add: u)
  next
    case (Some e)
    have "feed (SN_update cfg formatStart networker currentTime this) = this"
      using Some False
      by (simp add: SN_update_def Let_def
          split: option.splits response.splits list.splits sum.splits)
    then show ?thesis by (rule disjI1)
  qed
qed

lemma TD_update_returns_set:
  assumes "thrown (TD_update cfg networker currentTime this) = None"
    "lastUpdateTime this \<noteq> Undefined"
  shows "lastUpdateTime (feed (TD_update cfg networker currentTime this)) \<noteq> Null"
proof (cases "tooRecent (lastUpdateTime this) (minTimeBetweenUpdates cfg) currentTime")
  case True
  then have "lastUpdateTime this \<noteq> Null" by (cases "lastUpdateTime this") auto
  then show ?thesis using True by (simp add: TD_update_def)
next
  case False
  from TD_update_refreshed[OF False assms(1)] show ?thesis by fastforce
qed

lemma SN_update_returns_set:
  assumes "thrown (SN_update cfg formatStart networker currentTime this) = None"
    "lastUpdateTime this \<noteq> Undefined"
  shows "lastUpdateTime (feed (SN_update cfg formatStart networker currentTime this)) \<noteq> Null"
proof (cases "tooRecent (lastUpdateTime this) (minTimeBetweenUpdates cfg) currentTime")
  case True
  then have "lastUpdateTime this \<noteq> Null" by (cases "lastUpdateTime this") auto
  then show ?thesis using True by (simp add: SN_update_def)
next
  case False
  from SN_update_refreshed[OF False assms(1)] show ?thesis by fastforce
qed

subsection \<open>The states the feeds reach\<close>

text \<open>
  Every state a feed reaches has a \<^verbatim>\<open>lastUpdateTime\<close> that is \<^verbatim>\<open>null\<close> or a number,
  never \<^verbatim>\<open>undefined\<close>; and once it is a number, the series is not empty and the current
  price is the price of its last sample.
\<close>

lemma TD_reachable_invariant:
  "TD_reachable cfg this \<Longrightarrow>
     lastUpdateTime this \<noteq> Undefined
     \<and> (lastUpdateTime this = Null
        \<or> (priceHistory this \<noteq> []
            \<and> currentPrice this = Some (closePrice (last (priceHistory this)))))"
proof (induction rule: TD_reachable.induct)
  case TD_constructed
  then show ?case by (simp add: initial_def)
next
  case (TD_updated this networker currentTime)
  then show ?case
    using TD_update_feed[of cfg networker currentTime this] by auto
qed

lemma SN_reachable_invariant:
  "SN_reachable cfg formatStart this \<Longrightarrow>
     lastUpdateTime this \<noteq> Undefined
     \<and> (lastUpdateTime this = Null
        \<or> (priceHistory this \<noteq> []
            \<and> currentPrice this = Some (price (last (priceHistory this)))))"
proof (induction rule: SN_reachable.induct)
  case SN_constructed
  then show ?case by (simp add: initial_def)
next
  case (SN_updated this networker currentTime)
  then show ?case
    using SN_update_feed[of cfg formatStart networker currentTime this] by auto
qed

section \<open>Searching a series of numeric timestamps\<close>

lemma IsLessThan_Num: "IsLessThan (Num a) (Num b) = (a < b)"
  by simp








lemma stringLessThan_irrefl: "\<not> stringLessThan s s"
  by (induction s) auto

lemma numberLessThan_irrefl: "\<not> numberLessThan x x"
  by (cases x) auto

lemma IsLessThan_irrefl: "\<not> IsLessThan v v"
  by (cases v) (auto simp: stringLessThan_irrefl numberLessThan_irrefl)

lemma last_is_newest:
  assumes "sorted_wrt (\<lambda>a b. \<not> IsLessThan (d b) (d a)) xs" "p \<in> set xs"
  shows "\<not> IsLessThan (d (last xs)) (d p)"
proof -
  from assms(2) have ne: "xs \<noteq> []" by auto
  then have xs: "xs = butlast xs @ [last xs]" by simp
  from assms(2) xs have "p \<in> set (butlast xs) \<or> p = last xs"
    by (metis Un_iff empty_iff empty_set set_ConsD set_append)
  then show ?thesis
  proof
    assume "p \<in> set (butlast xs)"
    moreover have "sorted_wrt (\<lambda>a b. \<not> IsLessThan (d b) (d a)) (butlast xs @ [last xs])"
      using assms(1) xs by simp
    ultimately show ?thesis by (simp add: sorted_wrt_append)
  next
    assume "p = last xs"
    then show ?thesis by (simp add: IsLessThan_irrefl)
  qed
qed

section \<open>A query between two samples\<close>







section \<open>A query at or after the newest sample\<close>




section \<open>A query before the first sample\<close>




section \<open>The current price after an update\<close>

text \<open>
  Claim C3. In both feeds, when a call of \<^verbatim>\<open>update\<close> on a state the feed can reach
  returns without an error, the series is not empty and \<^verbatim>\<open>getCurrentPrice\<close> returns the
  price of its last sample; the series holds the samples in the order of the response.
  When the series is ordered oldest to newest (no sample's \<^verbatim>\<open>date\<close> is less than an
  earlier one's), no sample is newer than the last one.
\<close>

theorem C3_current_is_last:
  fixes cfg :: config and td :: td_state and sn :: sn_state and currentTime :: int
    and td_networker :: "string \<Rightarrow> td_value response option"
    and sn_networker :: "string \<Rightarrow> sn_value response option"
    and formatStart :: "int \<Rightarrow> string"
  defines "td' \<equiv> feed (TD_update cfg td_networker currentTime td)"
    and "sn' \<equiv> feed (SN_update cfg formatStart sn_networker currentTime sn)"
  assumes "TD_reachable cfg td" "thrown (TD_update cfg td_networker currentTime td) = None"
    and "SN_reachable cfg formatStart sn"
    and "thrown (SN_update cfg formatStart sn_networker currentTime sn) = None"
  shows "priceHistory td' \<noteq> []
    \<and> TD_getCurrentPrice td' = Some (closePrice (last (priceHistory td')))
    \<and> (sorted_wrt (\<lambda>a b. \<not> IsLessThan (td_sample.date b) (td_sample.date a)) (priceHistory td')
        \<longrightarrow> (\<forall>p\<in>set (priceHistory td').
               \<not> IsLessThan (td_sample.date (last (priceHistory td'))) (td_sample.date p)))
    \<and> priceHistory sn' \<noteq> []
    \<and> SN_getCurrentPrice sn' = Some (price (last (priceHistory sn')))
    \<and> (sorted_wrt (\<lambda>a b. \<not> IsLessThan (date b) (date a)) (priceHistory sn')
        \<longrightarrow> (\<forall>p\<in>set (priceHistory sn'). \<not> IsLessThan (date (last (priceHistory sn'))) (date p)))"
proof -
  have r: "TD_reachable cfg td'" unfolding td'_def using assms(3) by (rule TD_updated)
  have "lastUpdateTime td \<noteq> Undefined" using TD_reachable_invariant[OF assms(3)] by simp
  then have "lastUpdateTime td' \<noteq> Null"
    unfolding td'_def using assms(4) by (intro TD_update_returns_set)
  then have a: "priceHistory td' \<noteq> []"
    "TD_getCurrentPrice td' = Some (closePrice (last (priceHistory td')))"
    using TD_reachable_invariant[OF r] by (auto simp: TD_getCurrentPrice_def)
  have r': "SN_reachable cfg formatStart sn'" unfolding sn'_def using assms(5) by (rule SN_updated)
  have "lastUpdateTime sn \<noteq> Undefined" using SN_reachable_invariant[OF assms(5)] by simp
  then have "lastUpdateTime sn' \<noteq> Null"
    unfolding sn'_def using assms(6) by (intro SN_update_returns_set)
  then have b: "priceHistory sn' \<noteq> []"
    "SN_getCurrentPrice sn' = Some (price (last (priceHistory sn')))"
    using SN_reachable_invariant[OF r'] by (auto simp: SN_getCurrentPrice_def)
  show ?thesis
    using a b last_is_newest[of td_sample.date "priceHistory td'"]
      last_is_newest[of date "priceHistory sn'"] by blast
qed

theorem C3_current_is_last_witness:
  "TD_reachable scenario_config initial
   \<and> thrown (TD_update scenario_config (respond TD_sample_response) 1676300000 initial) = None
   \<and> SN_reachable scenario_config formatStart_2023MM01 initial
   \<and> thrown (SN_update scenario_config formatStart_2023MM01 (respond SN_sample_response)
               1676300000 initial) = None
   \<and> TD_getCurrentPrice
        (feed (TD_update scenario_config (respond TD_sample_response) 1676300000 initial))
       = Some 116640000000000000000
   \<and> closePrice (last (priceHistory
        (feed (TD_update scenario_config (respond TD_sample_response) 1676300000 initial))))
       = 116640000000000000000
   \<and> SN_getCurrentPrice
        (feed (SN_update scenario_config formatStart_2023MM01 (respond SN_sample_response)
                 1676300000 initial))
       = Some 180600000000000000000
   \<and> price (last (priceHistory
        (feed (SN_update scenario_config formatStart_2023MM01 (respond SN_sample_response)
                 1676300000 initial))))
       = 180600000000000000000"
proof -
  have h1: "TD_reachable scenario_config initial" by (rule TD_constructed)
  have h2: "thrown (TD_update scenario_config (respond TD_sample_response) 1676300000 initial)
            = None"
    by (simp add: TD_update_sample_response)
  have h3: "SN_reachable scenario_config formatStart_2023MM01 initial" by (rule SN_constructed)
  have h4: "thrown (SN_update scenario_config formatStart_2023MM01 (respond SN_sample_response)
               1676300000 initial) = None"
    by (simp add: SN_update_sample_response)
  have v1: "closePrice (last (priceHistory
        (feed (TD_update scenario_config (respond TD_sample_response) 1676300000 initial))))
       = 116640000000000000000"
    by (simp add: TD_update_sample_response)
  have v2: "price (last (priceHistory
        (feed (SN_update scenario_config formatStart_2023MM01 (respond SN_sample_response)
                 1676300000 initial))))
       = 180600000000000000000"
    by (simp add: SN_update_sample_response)
  show ?thesis
    using h1 h2 h3 h4 v1 v2 C3_current_is_last[OF h1 h2 h3 h4] by simp
qed

text \<open>
  The last sample need not be the newest: neither feed sorts the response. When the
  StatisticsNetherlands response lists February before January, the current price is the
  price of the sample with the smaller timestamp.
\<close>

theorem C3_newest_counterexample:
  "SN_reachable scenario_config formatStart_2023MM01 initial
   \<and> SN_update scenario_config formatStart_2023MM01
        (respond (Samples
           [\<lparr>Periods = ''2023MM02'', PriceIndexOfExistingOwnHomes_1 = ''   180.6''\<rparr>,
            \<lparr>Periods = ''2023MM01'', PriceIndexOfExistingOwnHomes_1 = ''   183.3''\<rparr>]))
        1679500000 initial
       = \<lparr>feed =
            \<lparr>priceHistory =
               [\<lparr>date = Num 1679450400, price = 180600000000000000000\<rparr>,
                \<lparr>date = Num 1677031200, price = 183300000000000000000\<rparr>],
             currentPrice = Some 183300000000000000000,
             lastUpdateTime = Seconds 1679500000\<rparr>,
          requests = [SN_url ''2023MM01''], thrown = None\<rparr>
   \<and> IsLessThan (Num 1677031200) (Num 1679450400)
   \<and> SN_getCurrentPrice
        \<lparr>priceHistory =
           [\<lparr>date = Num 1679450400, price = 180600000000000000000\<rparr>,
            \<lparr>date = Num 1677031200, price = 183300000000000000000\<rparr>],
         currentPrice = Some 183300000000000000000,
         lastUpdateTime = Seconds 1679500000\<rparr>
       = Some 183300000000000000000"
proof -
  have a: "SN_reachable scenario_config formatStart_2023MM01 initial"
    by (rule SN_constructed)
  have b: "SN_update scenario_config formatStart_2023MM01
        (respond (Samples
           [\<lparr>Periods = ''2023MM02'', PriceIndexOfExistingOwnHomes_1 = ''   180.6''\<rparr>,
            \<lparr>Periods = ''2023MM01'', PriceIndexOfExistingOwnHomes_1 = ''   183.3''\<rparr>]))
        1679500000 initial
       = \<lparr>feed =
            \<lparr>priceHistory =
               [\<lparr>date = Num 1679450400, price = 180600000000000000000\<rparr>,
                \<lparr>date = Num 1677031200, price = 183300000000000000000\<rparr>],
             currentPrice = Some 183300000000000000000,
             lastUpdateTime = Seconds 1679500000\<rparr>,
          requests = [SN_url ''2023MM01''], thrown = None\<rparr>
   \<and> IsLessThan (Num 1677031200) (Num 1679450400)
   \<and> SN_getCurrentPrice
        \<lparr>priceHistory =
           [\<lparr>date = Num 1679450400, price = 180600000000000000000\<rparr>,
            \<lparr>date = Num 1677031200, price = 183300000000000000000\<rparr>],
         currentPrice = Some 183300000000000000000,
         lastUpdateTime = Seconds 1679500000\<rparr>
       = Some 183300000000000000000"
    by (simp add: SN_getCurrentPrice_def SN_update_def respond_def initial_def
        formatStart_2023MM01_def SN_parse_def scenario_config_def convertPriceFeedDecimals_def substring0_def
        parseFixed_def Let_def stripTrailingZeros_def isDigit_def digitsValue_def trim_def
        isWhiteSpace_def convertFormattedDateToTimestamp_2023MM01
        convertFormattedDateToTimestamp_2023MM02)
  show ?thesis using a b by (rule conjI)
qed

text \<open>
  The sample response in the TwelveData source is listed newest first (the comment above
  the URL: results are ordered in time descending); on it the current price is the close of
  14:30, not that of 15:30.
\<close>

lemma TD_sample_response_current_price:
  "TD_reachable scenario_config initial
   \<and> thrown (TD_update scenario_config (respond TD_sample_response) 1676300000 initial) = None
   \<and> priceHistory (feed (TD_update scenario_config (respond TD_sample_response) 1676300000 initial))
       = [\<lparr>td_sample.date = Str ''2023-02-10 15:30:00'', closePrice = 116840000000000000000\<rparr>,
          \<lparr>td_sample.date = Str ''2023-02-10 14:30:00'', closePrice = 116640000000000000000\<rparr>]
   \<and> IsLessThan (Str ''2023-02-10 14:30:00'') (Str ''2023-02-10 15:30:00'')
   \<and> TD_getCurrentPrice
        (feed (TD_update scenario_config (respond TD_sample_response) 1676300000 initial))
       = Some 116640000000000000000"
  by (simp add: TD_update_sample_response TD_getCurrentPrice_def TD_constructed)

section \<open>The throttle\<close>

text \<open>
  Claim C5. In both feeds, a call of \<^verbatim>\<open>update\<close> made while \<^verbatim>\<open>lastUpdateTime\<close> is set
  and \<^verbatim>\<open>lastUpdateTime + minTimeBetweenUpdates > currentTime\<close> sends no request and leaves
  the series, the current price and the time of the last update as they were. Hence a
  call that refreshed the feed at \<open>start\<close> and a second call at \<open>later\<close>, less than
  \<^verbatim>\<open>minTimeBetweenUpdates\<close> seconds after \<open>start\<close>, send one request between them.
\<close>

theorem C5_throttle:
  "(lastUpdateTime td = Seconds t \<and> currentTime < t + minTimeBetweenUpdates cfg
      \<longrightarrow> TD_update cfg td_networker currentTime td = \<lparr>feed = td, requests = [], thrown = None\<rparr>)
   \<and> (lastUpdateTime sn = Seconds t \<and> currentTime < t + minTimeBetweenUpdates cfg
      \<longrightarrow> SN_update cfg formatStart sn_networker currentTime sn
            = \<lparr>feed = sn, requests = [], thrown = None\<rparr>)
   \<and> (\<not> tooRecent (lastUpdateTime td') (minTimeBetweenUpdates cfg) start
       \<and> thrown (TD_update cfg netA start td') = None \<and> later < start + minTimeBetweenUpdates cfg
      \<longrightarrow> length (requests (TD_update cfg netA start td')
                  @ requests (TD_update cfg netB later (feed (TD_update cfg netA start td')))) = 1
          \<and> feed (TD_update cfg netB later (feed (TD_update cfg netA start td')))
              = feed (TD_update cfg netA start td'))
   \<and> (\<not> tooRecent (lastUpdateTime sn') (minTimeBetweenUpdates cfg) start
       \<and> thrown (SN_update cfg formatStart snetA start sn') = None
       \<and> later < start + minTimeBetweenUpdates cfg
      \<longrightarrow> length (requests (SN_update cfg formatStart snetA start sn')
                  @ requests (SN_update cfg formatStart snetB later
                               (feed (SN_update cfg formatStart snetA start sn')))) = 1
          \<and> feed (SN_update cfg formatStart snetB later (feed (SN_update cfg formatStart snetA start sn')))
              = feed (SN_update cfg formatStart snetA start sn'))"
proof (intro conjI impI; (elim conjE)?)
  show "TD_update cfg td_networker currentTime td = \<lparr>feed = td, requests = [], thrown = None\<rparr>"
    if "lastUpdateTime td = Seconds t" "currentTime < t + minTimeBetweenUpdates cfg"
    using that by (rule TD_update_throttled)
  show "SN_update cfg formatStart sn_networker currentTime sn
          = \<lparr>feed = sn, requests = [], thrown = None\<rparr>"
    if "lastUpdateTime sn = Seconds t" "currentTime < t + minTimeBetweenUpdates cfg"
    using that by (rule SN_update_throttled)
next
  assume a: "\<not> tooRecent (lastUpdateTime td') (minTimeBetweenUpdates cfg) start"
    "thrown (TD_update cfg netA start td') = None" "later < start + minTimeBetweenUpdates cfg"
  from a(1,2) obtain vs new where
    u: "TD_update cfg netA start td'
       = \<lparr>feed = td'\<lparr>currentPrice := Some (closePrice (last new)), priceHistory := new,
                         lastUpdateTime := Seconds start\<rparr>,
          requests = [TD_url], thrown = None\<rparr>"
    by (rule TD_update_refreshed)
  have l: "lastUpdateTime (feed (TD_update cfg netA start td')) = Seconds start"
    by (simp add: u)
  note th = TD_update_throttled[OF l a(3), of netB]
  show "length (requests (TD_update cfg netA start td')
                  @ requests (TD_update cfg netB later (feed (TD_update cfg netA start td')))) = 1"
    by (simp add: th) (simp add: u)
  show "feed (TD_update cfg netB later (feed (TD_update cfg netA start td'))) = feed (TD_update cfg netA start td')"
    by (simp add: th)
next
  assume a: "\<not> tooRecent (lastUpdateTime sn') (minTimeBetweenUpdates cfg) start"
    "thrown (SN_update cfg formatStart snetA start sn') = None" "later < start + minTimeBetweenUpdates cfg"
  from a(1,2) obtain vs new where
    u: "SN_update cfg formatStart snetA start sn'
       = \<lparr>feed = sn'\<lparr>currentPrice := Some (price (last new)), priceHistory := new,
                         lastUpdateTime := Seconds start\<rparr>,
          requests = [SN_url (formatStart (start - lookback cfg))], thrown = None\<rparr>"
    by (rule SN_update_refreshed)
  have l: "lastUpdateTime (feed (SN_update cfg formatStart snetA start sn')) = Seconds start"
    by (simp add: u)
  note th = SN_update_throttled[OF l a(3), of formatStart snetB]
  show "length (requests (SN_update cfg formatStart snetA start sn')
                  @ requests (SN_update cfg formatStart snetB later
                               (feed (SN_update cfg formatStart snetA start sn')))) = 1"
    by (simp add: th) (simp add: u)
  show "feed (SN_update cfg formatStart snetB later (feed (SN_update cfg formatStart snetA start sn')))
              = feed (SN_update cfg formatStart snetA start sn')"
    by (simp add: th)
qed

theorem C5_throttle_witness:
  "lastUpdateTime TD_scenario = Seconds 1000
   \<and> (1500::int) < 1000 + minTimeBetweenUpdates scenario_config
   \<and> TD_update scenario_config (respond TD_sample_response) 1500 TD_scenario
       = \<lparr>feed = TD_scenario, requests = [], thrown = None\<rparr>
   \<and> lastUpdateTime SN_scenario = Seconds 1000
   \<and> SN_update scenario_config formatStart_2023MM01 (respond SN_sample_response) 1500 SN_scenario
       = \<lparr>feed = SN_scenario, requests = [], thrown = None\<rparr>
   \<and> \<not> tooRecent (lastUpdateTime (initial :: td_state)) (minTimeBetweenUpdates scenario_config) 2000
   \<and> thrown (TD_update scenario_config (respond TD_sample_response) 2000 initial) = None
   \<and> (2500::int) < 2000 + minTimeBetweenUpdates scenario_config
   \<and> length (requests (TD_update scenario_config (respond TD_sample_response) 2000 initial)
         @ requests (TD_update scenario_config (respond Absent) 2500
              (feed (TD_update scenario_config (respond TD_sample_response) 2000 initial)))) = 1
   \<and> \<not> tooRecent (lastUpdateTime (initial :: sn_state)) (minTimeBetweenUpdates scenario_config) 2000
   \<and> thrown (SN_update scenario_config formatStart_2023MM01 (respond SN_sample_response) 2000 initial)
       = None
   \<and> length (requests (SN_update scenario_config formatStart_2023MM01 (respond SN_sample_response)
                         2000 initial)
         @ requests (SN_update scenario_config formatStart_2023MM01 (respond Absent) 2500
              (feed (SN_update scenario_config formatStart_2023MM01 (respond SN_sample_response)
                      2000 initial)))) = 1"
proof -
  have h1: "lastUpdateTime TD_scenario = Seconds 1000" by (simp add: TD_scenario_def)
  have h2: "(1500::int) < 1000 + minTimeBetweenUpdates scenario_config"
    by (simp add: scenario_config_def)
  have h3: "lastUpdateTime SN_scenario = Seconds 1000" by (simp add: SN_scenario_def)
  have h4: "\<not> tooRecent (lastUpdateTime (initial :: td_state))
               (minTimeBetweenUpdates scenario_config) 2000"
    by (simp add: initial_def)
  have h5: "thrown (TD_update scenario_config (respond TD_sample_response) 2000 initial) = None"
    by (simp add: TD_update_sample_response)
  have h6: "(2500::int) < 2000 + minTimeBetweenUpdates scenario_config"
    by (simp add: scenario_config_def)
  have h7: "\<not> tooRecent (lastUpdateTime (initial :: sn_state))
               (minTimeBetweenUpdates scenario_config) 2000"
    by (simp add: initial_def)
  have h8: "thrown (SN_update scenario_config formatStart_2023MM01 (respond SN_sample_response)
                      2000 initial) = None"
    by (simp add: SN_update_sample_response)
  show ?thesis
    using h1 h2 h3 h4 h5 h6 h7 h8
      C5_throttle[where td = TD_scenario and sn = SN_scenario and t = 1000 and currentTime = 1500
        and cfg = scenario_config and td_networker = "respond TD_sample_response"
        and sn_networker = "respond SN_sample_response" and formatStart = formatStart_2023MM01
        and td' = initial and sn' = initial and start = 2000 and later = 2500
        and netA = "respond TD_sample_response" and netB = "respond Absent"
        and snetA = "respond SN_sample_response" and snetB = "respond Absent"]
    by blast
qed

section \<open>A response without samples\<close>

text \<open>
  Claim C6. In both feeds, when the request resolves to no response, to a response without
  the array of samples, or to one whose array is empty, \<^verbatim>\<open>update\<close> throws the error that
  carries the URL and the response, and the series, the current price and the time of the
  last update keep their values; \<^verbatim>\<open>getCurrentPrice\<close> returns afterwards what it returned
  before.
\<close>

theorem C6_failure:
  assumes "\<not> tooRecent (lastUpdateTime td) (minTimeBetweenUpdates cfg) currentTime"
    and "\<not> tooRecent (lastUpdateTime sn) (minTimeBetweenUpdates cfg) currentTime"
    and "td_networker TD_url = Some r" "r = Absent \<or> r = NoSamples \<or> r = Samples []"
    and "sn_networker (SN_url (formatStart (currentTime - lookback cfg))) = Some r'"
    and "r' = Absent \<or> r' = NoSamples \<or> r' = Samples []"
  shows "TD_update cfg td_networker currentTime td
           = \<lparr>feed = td, requests = [TD_url], thrown = Some (DataSourceError TD_url r)\<rparr>
    \<and> TD_getCurrentPrice (feed (TD_update cfg td_networker currentTime td))
        = TD_getCurrentPrice td
    \<and> SN_update cfg formatStart sn_networker currentTime sn
           = \<lparr>feed = sn, requests = [SN_url (formatStart (currentTime - lookback cfg))],
              thrown = Some (DataSourceError (SN_url (formatStart (currentTime - lookback cfg))) r')\<rparr>
    \<and> SN_getCurrentPrice (feed (SN_update cfg formatStart sn_networker currentTime sn))
        = SN_getCurrentPrice sn"
  using assms by (auto simp: TD_update_def SN_update_def Let_def)

theorem C6_failure_witness:
  "\<not> tooRecent (lastUpdateTime TD_scenario) (minTimeBetweenUpdates scenario_config) 5000
   \<and> \<not> tooRecent (lastUpdateTime SN_scenario) (minTimeBetweenUpdates scenario_config) 5000
   \<and> respond NoSamples TD_url = Some (NoSamples :: td_value response)
   \<and> respond (Samples []) (SN_url ''2023MM01'') = Some (Samples [] :: sn_value response)
   \<and> TD_update scenario_config (respond NoSamples) 5000 TD_scenario
       = \<lparr>feed = TD_scenario, requests = [TD_url],
          thrown = Some (DataSourceError TD_url NoSamples)\<rparr>
   \<and> TD_getCurrentPrice (feed (TD_update scenario_config (respond NoSamples) 5000 TD_scenario))
       = Some 30
   \<and> SN_update scenario_config formatStart_2023MM01 (respond (Samples [])) 5000 SN_scenario
       = \<lparr>feed = SN_scenario, requests = [SN_url ''2023MM01''],
          thrown = Some (DataSourceError (SN_url ''2023MM01'') (Samples []))\<rparr>
   \<and> SN_getCurrentPrice
        (feed (SN_update scenario_config formatStart_2023MM01 (respond (Samples [])) 5000 SN_scenario))
       = Some 30"
proof -
  have h1: "\<not> tooRecent (lastUpdateTime TD_scenario) (minTimeBetweenUpdates scenario_config) 5000"
    by (simp add: TD_scenario_def scenario_config_def)
  have h2: "\<not> tooRecent (lastUpdateTime SN_scenario) (minTimeBetweenUpdates scenario_config) 5000"
    by (simp add: SN_scenario_def scenario_config_def)
  have h3: "respond NoSamples TD_url = Some (NoSamples :: td_value response)"
    by (simp add: respond_def)
  have h4: "respond (Samples [])
              (SN_url (formatStart_2023MM01 (5000 - lookback scenario_config)))
            = Some (Samples [] :: sn_value response)"
    by (simp add: respond_def)
  have c1: "TD_getCurrentPrice TD_scenario = Some 30"
    by (simp add: TD_getCurrentPrice_def TD_scenario_def)
  have c2: "SN_getCurrentPrice SN_scenario = Some 30"
    by (simp add: SN_getCurrentPrice_def SN_scenario_def)
  show ?thesis
    using h1 h2 h3 h4 c1 c2
      C6_failure[where td = TD_scenario and sn = SN_scenario and cfg = scenario_config
        and currentTime = 5000 and td_networker = "respond NoSamples" and r = NoSamples
        and sn_networker = "respond (Samples [])" and formatStart = formatStart_2023MM01
        and r' = "Samples []"]
    by (simp add: formatStart_2023MM01_def)
qed

section \<open>A feed that was never updated\<close>

text \<open>
  Claim C8. A feed that was never updated has \<^verbatim>\<open>lastUpdateTime\<close> \<^verbatim>\<open>null\<close>, which the
  test \<^verbatim>\<open>this.lastUpdateTime === undefined\<close> of \<^verbatim>\<open>getHistoricalPrice\<close> does not
  catch: on such a feed the call goes on to the empty series and throws
  \<^verbatim>\<open>no valid price periods\<close>, at every query time and in both feeds.
\<close>

theorem C8_never_updated:
  "lastUpdateTime (initial :: td_state) = Null
   \<and> TD_getHistoricalPrice initial time = Inl EmptySeriesError
   \<and> lastUpdateTime (initial :: sn_state) = Null
   \<and> SN_getHistoricalPrice initial time = Inl EmptySeriesError"
  by (simp add: initial_def TD_getHistoricalPrice_def SN_getHistoricalPrice_def)

text \<open>No state a feed reaches makes \<^verbatim>\<open>getHistoricalPrice\<close> throw
  \<^verbatim>\<open>undefined lastUpdateTime\<close>.\<close>

lemma TD_never_uninitialized:
  "TD_reachable cfg this \<Longrightarrow> TD_getHistoricalPrice this time \<noteq> Inl UninitializedFeedError"
  using TD_reachable_invariant[of cfg this]
  by (auto simp: TD_getHistoricalPrice_def split: option.splits)

lemma SN_never_uninitialized:
  "SN_reachable cfg formatStart this
   \<Longrightarrow> SN_getHistoricalPrice this time \<noteq> Inl UninitializedFeedError"
  using SN_reachable_invariant[of cfg formatStart this]
  by (auto simp: SN_getHistoricalPrice_def Let_def split: option.splits)

section \<open>The decimal conversion keeps a prefix of the text\<close>

lemma isDigit_not_point: "isDigit c \<Longrightarrow> c \<noteq> CHR ''.''"
  by (auto simp: isDigit_def)

lemma isDigit_not_minus: "isDigit c \<Longrightarrow> c \<noteq> CHR ''-''"
  by (auto simp: isDigit_def)

lemma digits_no_point:
  "list_all isDigit w \<Longrightarrow>
     takeWhile (\<lambda>c. c \<noteq> CHR ''.'') w = w \<and> dropWhile (\<lambda>c. c \<noteq> CHR ''.'') w = []
     \<and> filter (\<lambda>c. c = CHR ''.'') w = []"
  by (induction w) (auto simp: isDigit_not_point)

lemma digits_body: "list_all isDigit w \<Longrightarrow> list_all (\<lambda>c. isDigit c \<or> c = CHR ''.'') w"
  by (induction w) auto

lemma parseFixed_digits:
  assumes "list_all isDigit w" "w \<noteq> []" "decimals \<le> 256"
  shows "parseFixed w decimals = Inr (int (digitsValue w) * 10 ^ decimals)"
proof -
  from assms obtain c r where w: "w = c # r" by (cases w) auto
  with assms have "isDigit c" by simp
  then have neg: "take (Suc 0) w \<noteq> ''-''" using w by (auto simp: isDigit_not_minus)
  have z: "digitsValue [] = 0" by (simp add: digitsValue_def)
  have np: "w \<noteq> ''.''" using w \<open>isDigit c\<close> by (auto simp: isDigit_not_point)
  have tw: "takeWhile (\<lambda>c. c \<noteq> CHR ''.'') w = w"
    and dw: "dropWhile (\<lambda>c. c \<noteq> CHR ''.'') w = []"
    and fl: "filter (\<lambda>c. c = CHR ''.'') w = []"
    using digits_no_point[OF assms(1)] by blast+
  have body: "list_all (\<lambda>c. isDigit c \<or> c = CHR ''.'') w"
    by (rule digits_body[OF assms(1)])
  show ?thesis
    unfolding parseFixed_def Let_def
    using assms(3) by (simp add: neg np tw dw fl body z assms(2) stripTrailingZeros_def)
qed

text \<open>
  Claim C9. The conversion cuts the text of the price to its first \<open>priceFeedDecimals\<close>
  characters and scales what is left by \<open>10 ^ priceFeedDecimals\<close>. When the integer part
  \<open>w\<close> of the text has at least that many digits, the result is the number its first
  \<open>priceFeedDecimals\<close> digits spell, scaled, with no error: \<^verbatim>\<open>"183.345"\<close> with 2
  decimals is cut to \<^verbatim>\<open>"18"\<close> and stored as 1800.
\<close>

theorem C9_truncation:
  assumes "list_all isDigit w" "decimals \<le> length w" "0 < decimals" "decimals \<le> 256"
  shows "substring0 (w @ rest) decimals = take decimals w
    \<and> convertPriceFeedDecimals decimals (w @ rest)
       = Inr (int (digitsValue (take decimals w)) * 10 ^ decimals)"
proof -
  have t: "take decimals (w @ rest) = take decimals w"
    using assms(2) by simp
  have d: "list_all isDigit (take decimals w)"
    using assms(1) by (simp add: list_all_iff) (meson in_set_takeD)
  have n: "take decimals w \<noteq> []"
    using assms(2,3) by (cases w) auto
  show ?thesis
    unfolding convertPriceFeedDecimals_def substring0_def t
    using parseFixed_digits[OF d n assms(4)] by simp
qed

theorem C9_truncation_witness:
  "list_all isDigit ''183'' \<and> (2::nat) \<le> length ''183'' \<and> (0::nat) < 2 \<and> (2::nat) \<le> 256
   \<and> substring0 ''183.345'' 2 = ''18''
   \<and> convertPriceFeedDecimals 2 ''183.345'' = Inr 1800"
proof -
  have h: "list_all isDigit ''183''" by (simp add: isDigit_def)
  have v: "digitsValue ''18'' = 18" by (simp add: digitsValue_def)
  show ?thesis
    using h v C9_truncation[of "''183''" 2 "''.345''"] by simp
qed

section \<open>The TwelveData feed stores the response's datetime strings\<close>

lemma isDigit_not_ws: "isDigit c \<Longrightarrow> \<not> isWhiteSpace c"
  by (auto simp: isDigit_def isWhiteSpace_def)

lemma trim_date:
  assumes "isDigit a" "e = CHR ''-''"
  shows "trim (a # b # c # d # e # r) = a # b # c # d # e # rev (dropWhile isWhiteSpace (rev r))"
proof -
  have e: "\<not> isWhiteSpace e" using assms(2) by (simp add: isWhiteSpace_def)
  have "dropWhile isWhiteSpace (rev r @ e # [d, c, b, a])
        = dropWhile isWhiteSpace (rev r) @ e # [d, c, b, a]"
    using e by (rule dropWhile_append3)
  then show ?thesis
    using isDigit_not_ws[OF assms(1)] by (simp add: trim_def)
qed

lemma StringToNumber_date:
  assumes "isDateString s"
  shows "StringToNumber s = NotANumber"
proof -
  from assms obtain a b c d e r where
    s: "s = a # b # c # d # e # r" and
    dg: "isDigit a" "isDigit b" "isDigit c" "isDigit d" and e: "e = CHR ''-''"
    by (auto elim!: isDateString.elims)
  define r' where "r' = rev (dropWhile isWhiteSpace (rev r))"
  have t: "trim s = a # b # c # d # CHR ''-'' # r'"
    unfolding s r'_def using trim_date[OF dg(1) e] e by simp
  have nd: "nonDecimalIntegerLiteral (a # b # c # d # CHR ''-'' # r') = None"
    using dg(2) by (auto simp: nonDecimalIntegerLiteral_def isDigit_def)
  have sign: "a \<noteq> CHR ''+''" "a \<noteq> CHR ''-''"
    using dg(1) by (auto simp: isDigit_def)
  have inf: "a # b # c # d # CHR ''-'' # r' \<noteq> ''Infinity''"
    using dg(1) by (auto simp: isDigit_def)
  have m: "\<not> isDigit CHR ''-''" by (simp add: isDigit_def)
  have u: "strUnsignedDecimalLiteral (a # b # c # d # CHR ''-'' # r') = NotANumber"
    unfolding strUnsignedDecimalLiteral_def Let_def
    using dg m inf by (simp add: exponentPart_def)
  show ?thesis
    unfolding StringToNumber_def Let_def t using nd sign u by simp
qed

lemma date_string_never_later:
  "isDateString s \<Longrightarrow> \<not> IsLessThan (Num time) (Str s)"
  by (simp add: StringToNumber_date)

lemma date_string_truthy: "isDateString s \<Longrightarrow> ToBoolean (Str s)"
  by (auto elim!: isDateString.elims)

lemma TD_parse_date: "TD_parse cfg v = Inr y \<Longrightarrow> td_sample.date y = datetime v"
  by (auto simp: TD_parse_def split: sum.splits)

lemma TD_parse_dates:
  "mapResult (TD_parse cfg) vs = Inr new \<Longrightarrow> map td_sample.date new = map datetime vs"
proof (induction vs arbitrary: new)
  case Nil
  then show ?case by simp
next
  case (Cons v vs)
  then show ?case by (auto split: sum.splits dest: TD_parse_date)
qed

text \<open>
  Claim C10. The TwelveData feed stores each sample's \<^verbatim>\<open>datetime\<close> as it comes in the
  response. When these are date strings (\<^verbatim>\<open>"2023-02-10 15:30:00"\<close>), a refreshing call of
  \<^verbatim>\<open>update\<close> leaves a series whose dates are these strings; \<^verbatim>\<open>time < date\<close> is then
  false for every sample and every numeric time, since the string converts to NaN; so
  \<^verbatim>\<open>getHistoricalPrice\<close> never throws the error for a time before the lookback window
  and returns the current price at every time.
\<close>

theorem C10_raw_datetime:
  fixes cfg :: config and td :: td_state and currentTime :: int
    and networker :: "string \<Rightarrow> td_value response option"
  defines "td' \<equiv> feed (TD_update cfg networker currentTime td)"
  assumes "\<not> tooRecent (lastUpdateTime td) (minTimeBetweenUpdates cfg) currentTime"
    and "networker TD_url = Some (Samples vs)" "list_all hasDateString vs"
    and "thrown (TD_update cfg networker currentTime td) = None"
  shows "map td_sample.date (priceHistory td') = map datetime vs
    \<and> (\<forall>p\<in>set (priceHistory td'). \<not> IsLessThan (Num time) (td_sample.date p))
    \<and> TD_getHistoricalPrice td' time \<noteq> Inl BeforeLookbackWindowError
    \<and> (\<exists>c. TD_getCurrentPrice td' = Some c \<and> TD_getHistoricalPrice td' time = Inr c)"
proof -
  from TD_update_refreshed[OF assms(2,5)] obtain ws new where
    w: "networker TD_url = Some (Samples ws)" and ne: "ws \<noteq> []" and
    m: "mapResult (TD_parse cfg) ws = Inr new" and
    u: "TD_update cfg networker currentTime td
       = \<lparr>feed = td\<lparr>currentPrice := Some (closePrice (last new)), priceHistory := new,
                         lastUpdateTime := Seconds currentTime\<rparr>,
          requests = [TD_url], thrown = None\<rparr>"
    by blast
  have ws: "ws = vs" using w assms(3) by simp
  have ph: "priceHistory td' = new" and cp: "currentPrice td' = Some (closePrice (last new))"
    and lu: "lastUpdateTime td' = Seconds currentTime"
    unfolding td'_def u by simp_all
  have dates: "map td_sample.date new = map datetime vs"
    using TD_parse_dates[OF m] ws by simp
  have shape: "\<exists>s. td_sample.date p = Str s \<and> isDateString s" if "p \<in> set new" for p
  proof -
    from that have "td_sample.date p \<in> set (map datetime vs)"
      using dates by (metis imageI set_map)
    then obtain v where "v \<in> set vs" "td_sample.date p = datetime v" by auto
    moreover from this assms(4) have "hasDateString v" by (simp add: list_all_iff)
    ultimately show ?thesis by (auto simp: hasDateString_def split: jsvalue.splits)
  qed
  have never: "\<not> IsLessThan (Num time) (td_sample.date p)" if "p \<in> set new" for p
    using shape[OF that] date_string_never_later by auto
  have truthy: "ToBoolean (td_sample.date p)" if "p \<in> set new" for p
    using shape[OF that] date_string_truthy by auto
  have nn: "new \<noteq> []" using mapResult_nonempty[OF m ne] .
  then obtain x xs where new: "new = x # xs" by (cases new) auto
  have f1: "find (\<lambda>p. ToBoolean (td_sample.date p)) new = Some x"
    using truthy[of x] new by simp
  have f2: "find (\<lambda>p. IsLessThan (Num time) (td_sample.date p)) new = None"
    using never by (simp add: find_None_iff)
  have g: "TD_getHistoricalPrice td' time = Inr (closePrice (last new))"
    using f1 f2 never[of x] new
    by (simp add: TD_getHistoricalPrice_def ph cp lu)
  show ?thesis
    using dates never g by (simp add: ph TD_getCurrentPrice_def cp)
qed

theorem C10_raw_datetime_witness:
  "\<not> tooRecent (lastUpdateTime (initial :: td_state)) (minTimeBetweenUpdates scenario_config) 1676300000
   \<and> respond TD_sample_response TD_url = Some TD_sample_response
   \<and> list_all hasDateString
        [\<lparr>datetime = Str ''2023-02-10 15:30:00'', close = ''116.84000''\<rparr>,
         \<lparr>datetime = Str ''2023-02-10 14:30:00'', close = ''116.64000''\<rparr>]
   \<and> thrown (TD_update scenario_config (respond TD_sample_response) 1676300000 initial) = None
   \<and> map td_sample.date
        (priceHistory (feed (TD_update scenario_config (respond TD_sample_response) 1676300000 initial)))
       = [Str ''2023-02-10 15:30:00'', Str ''2023-02-10 14:30:00'']
   \<and> TD_getHistoricalPrice
        (feed (TD_update scenario_config (respond TD_sample_response) 1676300000 initial)) 0
       = Inr 116640000000000000000"
proof -
  have h1: "\<not> tooRecent (lastUpdateTime (initial :: td_state))
               (minTimeBetweenUpdates scenario_config) 1676300000"
    by (simp add: initial_def)
  have h2: "respond TD_sample_response TD_url
            = Some (Samples
        [\<lparr>datetime = Str ''2023-02-10 15:30:00'', close = ''116.84000''\<rparr>,
         \<lparr>datetime = Str ''2023-02-10 14:30:00'', close = ''116.64000''\<rparr>])"
    by (simp add: respond_def TD_sample_response_def)
  have h3: "list_all hasDateString
        [\<lparr>datetime = Str ''2023-02-10 15:30:00'', close = ''116.84000''\<rparr>,
         \<lparr>datetime = Str ''2023-02-10 14:30:00'', close = ''116.64000''\<rparr>]"
    by (simp add: hasDateString_def isDigit_def)
  have h4: "thrown (TD_update scenario_config (respond TD_sample_response) 1676300000 initial)
            = None"
    by (simp add: TD_update_sample_response)
  have c: "TD_getCurrentPrice
        (feed (TD_update scenario_config (respond TD_sample_response) 1676300000 initial))
       = Some 116640000000000000000"
    by (simp add: TD_update_sample_response TD_getCurrentPrice_def)
  show ?thesis
    using h1 h2 h3 h4 c C10_raw_datetime[OF h1 h2 h3 h4, of 0]
    by (auto simp: respond_def)
qed

end
